theory Spec2Isabelle
  imports Main "HOL-Library.Word"
begin

section \<open>Values: bytes, text, header dictionaries\<close>

text \<open>
  Python \<open>bytes\<close> are lists of 8-bit words. Python \<open>str\<close> is a sequence of Unicode code
  points, which do not fit the 8-bit \<open>char\<close> of HOL, so a \<open>str\<close> is a list of code points.
  \<open>bytes_of\<close> and \<open>str_of\<close> write the ASCII literals of the source (\<open>b"..."\<close>, \<open>"..."\<close>).
\<close>

type_synonym byte = "8 word"
type_synonym bytes = "byte list"
type_synonym str = "nat list"

definition bytes_of :: "string \<Rightarrow> bytes" where
  "bytes_of s = map of_char s"

definition str_of :: "string \<Rightarrow> str" where
  "str_of s = map of_char s"

text \<open>The values stored in a header dictionary: \<open>WS_HEADERS\<close> holds strings and the int 13.\<close>

datatype pyval = PStr str | PInt int

text \<open>
  A \<open>dict\<close> with string keys, in insertion order. \<open>dict_set\<close> is \<open>d[k] = v\<close>: an existing key
  keeps its position and takes the new value, a new key goes to the end.
  \<open>dict_update\<close> is \<open>d.update(other)\<close>.
\<close>

type_synonym pydict = "(str \<times> pyval) list"

fun dict_set :: "pydict \<Rightarrow> str \<Rightarrow> pyval \<Rightarrow> pydict" where
  "dict_set [] k v = [(k, v)]"
| "dict_set ((k', v') # d) k v = (if k' = k then (k, v) # d else (k', v') # dict_set d k v)"

fun dict_update :: "pydict \<Rightarrow> pydict \<Rightarrow> pydict" where
  "dict_update d [] = d"
| "dict_update d ((k, v) # other) = dict_update (dict_set d k v) other"

datatype error = AttributeError | UnicodeDecodeError

text \<open>
  \<open>value.decode()\<close>: strict UTF-8. A lead byte announces one to four bytes; continuation
  bytes are \<open>0x80..0xBF\<close>; overlong forms, surrogates and code points above \<open>0x10FFFF\<close> raise
  \<open>UnicodeDecodeError\<close>, as does a truncated sequence.
\<close>

definition is_cont :: "byte \<Rightarrow> bool" where
  "is_cont x = (0x80 \<le> unat x \<and> unat x < 0xC0)"

definition cons_cp :: "nat \<Rightarrow> error + str \<Rightarrow> error + str" where
  "cons_cp cp r = (case r of Inl e \<Rightarrow> Inl e | Inr s \<Rightarrow> Inr (cp # s))"

fun decode :: "bytes \<Rightarrow> error + str" where
  "decode [] = Inr []"
| "decode (a # rest) =
     (if unat a < 0x80 then cons_cp (unat a) (decode rest)
      else if 0xC0 \<le> unat a \<and> unat a < 0xE0 then
        (case rest of
           b1 # r \<Rightarrow>
             (let cp = (unat a - 0xC0) * 64 + (unat b1 - 0x80)
              in if is_cont b1 \<and> 0x80 \<le> cp then cons_cp cp (decode r)
                 else Inl UnicodeDecodeError)
         | _ \<Rightarrow> Inl UnicodeDecodeError)
      else if 0xE0 \<le> unat a \<and> unat a < 0xF0 then
        (case rest of
           b1 # b2 # r \<Rightarrow>
             (let cp = (unat a - 0xE0) * 4096 + (unat b1 - 0x80) * 64 + (unat b2 - 0x80)
              in if is_cont b1 \<and> is_cont b2 \<and> 0x800 \<le> cp \<and> \<not> (0xD800 \<le> cp \<and> cp < 0xE000)
                 then cons_cp cp (decode r)
                 else Inl UnicodeDecodeError)
         | _ \<Rightarrow> Inl UnicodeDecodeError)
      else if 0xF0 \<le> unat a \<and> unat a < 0xF8 then
        (case rest of
           b1 # b2 # b3 # r \<Rightarrow>
             (let cp = (unat a - 0xF0) * 262144 + (unat b1 - 0x80) * 4096
                       + (unat b2 - 0x80) * 64 + (unat b3 - 0x80)
              in if is_cont b1 \<and> is_cont b2 \<and> is_cont b3 \<and> 0x10000 \<le> cp \<and> cp \<le> 0x10FFFF
                 then cons_cp cp (decode r)
                 else Inl UnicodeDecodeError)
         | _ \<Rightarrow> Inl UnicodeDecodeError)
      else Inl UnicodeDecodeError)"

text \<open>
  \<open>s.split(sep)\<close> with a one-character separator: every occurrence splits, empty pieces are
  kept, and the empty string gives one empty piece.
\<close>

fun split :: "nat \<Rightarrow> str \<Rightarrow> str list" where
  "split sep [] = [[]]"
| "split sep (x # xs) =
     (if x = sep then [] # split sep xs
      else (case split sep xs of
              w # ws \<Rightarrow> (x # w) # ws
            | [] \<Rightarrow> [[x]]))"

section \<open>What the code asks of its surroundings\<close>

text \<open>
  The functions below belong to modules that are not part of the sources at hand
  (\<open>xpra.os_util\<close>, \<open>xpra.net.websockets.header\<close>, \<open>xpra.net.quic.common\<close>,
  \<open>xpra.net.bytestreams\<close>); the model takes them as parameters. \<open>'b\<close> is the state of the
  base class \<open>Connection\<close>.
\<close>

record 'b env =
  memoryview_to_bytes :: "bytes \<Rightarrow> bytes"
  close_packet :: "int \<Rightarrow> str \<Rightarrow> bytes"
  binary_headers :: "pydict \<Rightarrow> (bytes \<times> bytes) list"
  USER_AGENT :: str
  Connection_init :: "str \<Rightarrow> int \<Rightarrow> 'b"
  Connection_close :: "'b \<Rightarrow> 'b"

text \<open>
  The HTTP/3 events the code inspects, with the fields it reads. \<open>OtherEvent\<close> stands for
  the remaining event classes of the HTTP/3 library (push promises, datagrams).
\<close>

datatype h3event =
  HeadersReceived int "(bytes \<times> bytes) list"
| DataReceived int bytes
| OtherEvent int

datatype warning =
  UnsupportedSubprotocols "str list"
| UnhandledEvent h3event
| UnexpectedStreamId int
| UnexpectedEventType h3event

text \<open>
  The HTTP/3 connection, the \<open>transmit\<close> callback and the logger are shared objects that the
  code only calls. Each call is recorded, in order:
  \<open>SendData sid data end_stream\<close> for \<open>connection.send_data\<close>,
  \<open>SendHeaders sid headers end_stream\<close> for \<open>connection.send_headers\<close>,
  \<open>Transmit\<close> for \<open>transmit()\<close> and \<open>Warn\<close> for \<open>log.warn\<close>.
\<close>

datatype effect =
  SendData int bytes bool
| SendHeaders int "(bytes \<times> bytes) list" bool
| Transmit
| Warn warning

section \<open>XpraQuicConnection\<close>

text \<open>
  The fields of \<open>XpraQuicConnection\<close> that the methods read or write. \<open>read_queue\<close> is the
  \<open>Queue\<close> of inbound chunks, oldest first.
\<close>

record 'b XpraQuicConnection =
  base :: 'b
  stream_id :: int
  read_queue :: "bytes list"
  accepted :: bool
  closed :: bool

definition XpraQuicConnection_init ::
  "'b env \<Rightarrow> int \<Rightarrow> str \<Rightarrow> int \<Rightarrow> 'b XpraQuicConnection" where
  "XpraQuicConnection_init E sid host port =
     \<lparr>base = Connection_init E host port, stream_id = sid, read_queue = [],
      accepted = False, closed = False\<rparr>"

text \<open>
  \<open>http_event_received\<close> of the base class: nothing when closed, a chunk queued for
  \<open>DataReceived\<close>, a warning for anything else.
\<close>

definition XpraQuicConnection_http_event_received ::
  "h3event \<Rightarrow> ('b, 'z) XpraQuicConnection_scheme
     \<Rightarrow> effect list \<times> ('b, 'z) XpraQuicConnection_scheme" where
  "XpraQuicConnection_http_event_received event c =
     (if closed c then ([], c)
      else (case event of
              DataReceived sid data \<Rightarrow> ([], c\<lparr>read_queue := read_queue c @ [data]\<rparr>)
            | _ \<Rightarrow> ([Warn (UnhandledEvent event)], c)))"

definition XpraQuicConnection_send_headers ::
  "'b env \<Rightarrow> pydict \<Rightarrow> ('b, 'z) XpraQuicConnection_scheme \<Rightarrow> effect list" where
  "XpraQuicConnection_send_headers E headers c = [SendHeaders (stream_id c) (binary_headers E headers) (closed c)]"

text \<open>\<open>write\<close> of the base class sends at once, whatever \<open>closed\<close> says, and returns \<open>len(buf)\<close>.\<close>

definition XpraQuicConnection_write ::
  "'b env \<Rightarrow> bytes \<Rightarrow> ('b, 'z) XpraQuicConnection_scheme
     \<Rightarrow> effect list \<times> nat \<times> ('b, 'z) XpraQuicConnection_scheme" where
  "XpraQuicConnection_write E buf c =
     (let data = memoryview_to_bytes E buf
      in ([SendData (stream_id c) data (closed c), Transmit], length buf, c))"

text \<open>
  \<open>send_close\<close> calls \<open>self.write\<close>, which a subclass may override: the method to call is the
  parameter \<open>wr\<close>.
\<close>

definition XpraQuicConnection_send_close ::
  "('b env \<Rightarrow> bytes \<Rightarrow> ('b, 'z) XpraQuicConnection_scheme
      \<Rightarrow> effect list \<times> nat \<times> ('b, 'z) XpraQuicConnection_scheme)
   \<Rightarrow> 'b env \<Rightarrow> int \<Rightarrow> str \<Rightarrow> ('b, 'z) XpraQuicConnection_scheme
   \<Rightarrow> effect list \<times> ('b, 'z) XpraQuicConnection_scheme" where
  "XpraQuicConnection_send_close wr E code reason c =
     (let c1 = c\<lparr>closed := True\<rparr>
      in if accepted c1 then
           (let data = close_packet E code reason;
                (evs, n, c2) = wr E data c1
            in (evs, c2))
         else (XpraQuicConnection_send_headers E [(str_of '':status'', PInt code)] c1 @ [Transmit], c1))"

definition XpraQuicConnection_close ::
  "('b env \<Rightarrow> bytes \<Rightarrow> ('b, 'z) XpraQuicConnection_scheme
      \<Rightarrow> effect list \<times> nat \<times> ('b, 'z) XpraQuicConnection_scheme)
   \<Rightarrow> 'b env \<Rightarrow> ('b, 'z) XpraQuicConnection_scheme
   \<Rightarrow> effect list \<times> ('b, 'z) XpraQuicConnection_scheme" where
  "XpraQuicConnection_close wr E c =
     (let (evs, c1) = (if \<not> closed c then XpraQuicConnection_send_close wr E 1000 [] c else ([], c))
      in (evs, c1\<lparr>base := Connection_close E (base c1)\<rparr>))"

text \<open>
  \<open>read\<close> takes the oldest chunk of the queue. \<open>Queue.get()\<close> on an empty queue waits for a
  producer; with none running, the call does not return: \<open>Blocks\<close>.
\<close>

datatype 'a blocking = Returns 'a | Blocks

definition XpraQuicConnection_read ::
  "int \<Rightarrow> ('b, 'z) XpraQuicConnection_scheme
     \<Rightarrow> bytes blocking \<times> ('b, 'z) XpraQuicConnection_scheme" where
  "XpraQuicConnection_read n c =
     (case read_queue c of
        [] \<Rightarrow> (Blocks, c)
      | chunk # q \<Rightarrow> (Returns chunk, c\<lparr>read_queue := q\<rparr>))"

section \<open>ClientWebSocketConnection\<close>

text \<open>
  The subclass adds \<open>write_buffer\<close>: \<open>Some q\<close> is a \<open>Queue\<close> holding \<open>q\<close>, oldest first;
  \<open>None\<close> is Python's \<open>None\<close>, which \<open>flush_writes\<close> stores once it has run.
\<close>

record 'b ClientWebSocketConnection = "'b XpraQuicConnection" +
  write_buffer :: "bytes list option"

definition ClientWebSocketConnection_init ::
  "'b env \<Rightarrow> int \<Rightarrow> str \<Rightarrow> int \<Rightarrow> 'b ClientWebSocketConnection" where
  "ClientWebSocketConnection_init E sid host port =
     XpraQuicConnection.extend (XpraQuicConnection_init E sid host port)
       (ClientWebSocketConnection.fields (Some []))"

text \<open>
  The loop of \<open>flush_writes\<close>: while the queue is not empty, take its oldest buffer and send
  it. It returns the calls made and the queue it leaves.
\<close>

fun flush_loop :: "'b env \<Rightarrow> int \<Rightarrow> bytes list \<Rightarrow> effect list \<times> bytes list" where
  "flush_loop E sid [] = ([], [])"
| "flush_loop E sid (buf # q) =
     (let (evs, q') = flush_loop E sid q
      in (SendData sid (memoryview_to_bytes E buf) False # evs, q'))"

text \<open>
  \<open>flush_writes\<close>: on \<open>None\<close>, \<open>self.write_buffer.qsize()\<close> raises \<open>AttributeError\<close> before
  anything is sent.
\<close>

definition flush_writes ::
  "'b env \<Rightarrow> 'b ClientWebSocketConnection
     \<Rightarrow> effect list \<times> 'b ClientWebSocketConnection \<times> (error + unit)" where
  "flush_writes E c =
     (case write_buffer c of
        None \<Rightarrow> ([], c, Inl AttributeError)
      | Some q \<Rightarrow>
          (let (evs, q') = flush_loop E (stream_id c) q
           in (evs @ [Transmit], c\<lparr>write_buffer := None\<rparr>, Inr ())))"

definition ClientWebSocketConnection_write ::
  "'b env \<Rightarrow> bytes \<Rightarrow> 'b ClientWebSocketConnection
     \<Rightarrow> effect list \<times> nat \<times> 'b ClientWebSocketConnection" where
  "ClientWebSocketConnection_write E buf c =
     (case write_buffer c of
        Some q \<Rightarrow> ([], length buf, c\<lparr>write_buffer := Some (q @ [buf])\<rparr>)
      | None \<Rightarrow> XpraQuicConnection_write E buf c)"

text \<open>\<open>close\<close> is inherited; its \<open>self.write\<close> is the subclass's \<open>write\<close>.\<close>

definition ClientWebSocketConnection_close ::
  "'b env \<Rightarrow> 'b ClientWebSocketConnection \<Rightarrow> effect list \<times> 'b ClientWebSocketConnection" where
  "ClientWebSocketConnection_close E c = XpraQuicConnection_close ClientWebSocketConnection_write E c"

text \<open>
  The loop over \<open>event.headers\<close> in \<open>http_event_received\<close>. An exception leaves the loop with
  the calls made and the state reached so far; the \<open>return\<close> after \<open>self.close()\<close> leaves it
  normally.
\<close>

fun headers_loop ::
  "'b env \<Rightarrow> (bytes \<times> bytes) list \<Rightarrow> 'b ClientWebSocketConnection
     \<Rightarrow> effect list \<times> 'b ClientWebSocketConnection \<times> (error + unit)" where
  "headers_loop E [] c = ([], c, Inr ())"
| "headers_loop E ((header, val) # hs) c =
     (if header = bytes_of ''sec-websocket-protocol'' then
        (case decode val of
           Inl e \<Rightarrow> ([], c, Inl e)
         | Inr s \<Rightarrow>
             (let subprotocols = split 44 s
              in if str_of ''xpra'' \<notin> set subprotocols then
                   (let (evs, c1) = ClientWebSocketConnection_close E c
                    in (Warn (UnsupportedSubprotocols subprotocols) # evs, c1, Inr ()))
                 else
                   (let c1 = c\<lparr>accepted := True\<rparr>;
                        (evs, c2, r) = flush_writes E c1
                    in (case r of
                          Inl e \<Rightarrow> (evs, c2, Inl e)
                        | Inr _ \<Rightarrow>
                            (let (evs', c3, r') = headers_loop E hs c2
                             in (evs @ evs', c3, r'))))))
      else headers_loop E hs c)"

definition ClientWebSocketConnection_http_event_received ::
  "'b env \<Rightarrow> h3event \<Rightarrow> 'b ClientWebSocketConnection
     \<Rightarrow> effect list \<times> 'b ClientWebSocketConnection \<times> (error + unit)" where
  "ClientWebSocketConnection_http_event_received E event c =
     (case event of
        HeadersReceived sid headers \<Rightarrow> headers_loop E headers c
      | _ \<Rightarrow>
          (let (evs, c1) = XpraQuicConnection_http_event_received event c
           in (evs, c1, Inr ())))"

section \<open>WebSocketClient\<close>

definition WS_HEADERS :: "'b env \<Rightarrow> pydict" where
  "WS_HEADERS E =
     [(str_of '':method'', PStr (str_of ''CONNECT'')),
      (str_of '':scheme'', PStr (str_of ''https'')),
      (str_of '':protocol'', PStr (str_of ''websocket'')),
      (str_of ''sec-websocket-version'', PInt 13),
      (str_of ''sec-websocket-protocol'', PStr (str_of ''xpra'')),
      (str_of ''user-agent'', PStr (USER_AGENT E))]"

text \<open>
  \<open>_websockets\<close> maps stream ids to connection objects. The objects are shared with the
  callers that \<open>open\<close> returned them to: a caller holds a stream id, and a method called on
  the object updates the entry. \<open>calls\<close> records what was asked of the shared HTTP/3
  connection, \<open>transmit\<close> and the logger, oldest first.
\<close>

record 'b WebSocketClient =
  websockets :: "int \<rightharpoonup> 'b ClientWebSocketConnection"
  calls :: "effect list"

definition WebSocketClient_init :: "'b WebSocketClient" where
  "WebSocketClient_init = \<lparr>websockets = Map.empty, calls = []\<rparr>"

text \<open>
  \<open>open\<close>: \<open>sid\<close> is what \<open>self._quic.get_next_available_stream_id()\<close> returned. The result is
  the new connection, here its key in \<open>_websockets\<close>.
\<close>

definition WebSocketClient_open ::
  "'b env \<Rightarrow> int \<Rightarrow> str \<Rightarrow> int \<Rightarrow> str \<Rightarrow> 'b WebSocketClient \<Rightarrow> int \<times> 'b WebSocketClient" where
  "WebSocketClient_open E sid host port path m =
     (let websocket = ClientWebSocketConnection_init E sid host port;
          ws = (websockets m)(sid \<mapsto> websocket);
          headers = [(str_of '':authority'', PStr host), (str_of '':path'', PStr path)];
          headers = dict_update headers (WS_HEADERS E)
      in (sid, m\<lparr>websockets := ws,
                  calls := calls m @ [SendHeaders sid (binary_headers E headers) False, Transmit]\<rparr>))"

text \<open>
  \<open>isinstance(event, (HeadersReceived, DataReceived))\<close> and \<open>event.stream_id\<close>.
\<close>

fun is_headers_or_data :: "h3event \<Rightarrow> bool" where
  "is_headers_or_data (HeadersReceived sid headers) = True"
| "is_headers_or_data (DataReceived sid data) = True"
| "is_headers_or_data (OtherEvent sid) = False"

fun event_stream_id :: "h3event \<Rightarrow> int" where
  "event_stream_id (HeadersReceived sid headers) = sid"
| "event_stream_id (DataReceived sid data) = sid"
| "event_stream_id (OtherEvent sid) = sid"

definition WebSocketClient_http_event_received ::
  "'b env \<Rightarrow> h3event \<Rightarrow> 'b WebSocketClient \<Rightarrow> 'b WebSocketClient \<times> (error + unit)" where
  "WebSocketClient_http_event_received E event m =
     (if is_headers_or_data event then
        (let sid = event_stream_id event
         in (case websockets m sid of
               Some websocket \<Rightarrow>
                 (let (evs, websocket', r) =
                        ClientWebSocketConnection_http_event_received E event websocket
                  in (m\<lparr>websockets := (websockets m)(sid \<mapsto> websocket'),
                        calls := calls m @ evs\<rparr>, r))
             | None \<Rightarrow> (m\<lparr>calls := calls m @ [Warn (UnexpectedStreamId sid)]\<rparr>, Inr ())))
      else (m\<lparr>calls := calls m @ [Warn (UnexpectedEventType event)]\<rparr>, Inr ()))"


section \<open>Connections as callers drive them\<close>

text \<open>
  The methods a \<open>ClientWebSocketConnection\<close> offers, as calls: \<open>write(buf)\<close>, \<open>close()\<close>,
  \<open>http_event_received(event)\<close> and \<open>read(n)\<close>. \<open>state_after\<close> is the object after one
  call, whether the call returned or raised; \<open>connection_after\<close> is the object after a
  sequence of calls on a newly constructed connection.
\<close>

datatype call = Write bytes | Close | Event h3event | Read int

fun state_after ::
  "'b env \<Rightarrow> call \<Rightarrow> 'b ClientWebSocketConnection \<Rightarrow> 'b ClientWebSocketConnection" where
  "state_after E (Write buf) c = snd (snd (ClientWebSocketConnection_write E buf c))"
| "state_after E Close c = snd (ClientWebSocketConnection_close E c)"
| "state_after E (Event event) c = fst (snd (ClientWebSocketConnection_http_event_received E event c))"
| "state_after E (Read n) c = snd (XpraQuicConnection_read n c)"

definition connection_after ::
  "'b env \<Rightarrow> int \<Rightarrow> str \<Rightarrow> int \<Rightarrow> call list \<Rightarrow> 'b ClientWebSocketConnection" where
  "connection_after E sid host port cs =
     foldl (\<lambda>c call. state_after E call c) (ClientWebSocketConnection_init E sid host port) cs"

text \<open>The buffers that a sequence of calls handed to \<open>write\<close>, in order.\<close>

fun written :: "call list \<Rightarrow> bytes list" where
  "written [] = []"
| "written (Write buf # cs) = buf # written cs"
| "written (Close # cs) = written cs"
| "written (Event event # cs) = written cs"
| "written (Read n # cs) = written cs"

text \<open>
  The buffer is present exactly as long as the connection has not been accepted.
\<close>

definition buffer_inv :: "'b ClientWebSocketConnection \<Rightarrow> bool" where
  "buffer_inv c = (accepted c = (write_buffer c = None))"

text \<open>
  What one call asks of the HTTP/3 connection, \<open>transmit\<close> and the logger, and what a
  sequence of calls asks of them, from a given connection on.
\<close>

fun call_effects :: "'b env \<Rightarrow> call \<Rightarrow> 'b ClientWebSocketConnection \<Rightarrow> effect list" where
  "call_effects E (Write buf) c = fst (ClientWebSocketConnection_write E buf c)"
| "call_effects E Close c = fst (ClientWebSocketConnection_close E c)"
| "call_effects E (Event event) c = fst (ClientWebSocketConnection_http_event_received E event c)"
| "call_effects E (Read n) c = []"

fun trace :: "'b env \<Rightarrow> call list \<Rightarrow> 'b ClientWebSocketConnection \<Rightarrow> effect list" where
  "trace E [] c = []"
| "trace E (call # cs) c = call_effects E call c @ trace E cs (state_after E call c)"

section \<open>A write that overlaps flush_writes\<close>

text \<open>
  The connection that \<open>open\<close> returns is used from two threads: HTTP/3 events arrive on the
  thread of the event loop (\<open>get_threaded_loop\<close>), where \<open>http_event_received\<close> runs
  \<open>flush_writes\<close>, and the caller of \<open>quic_connect\<close> calls \<open>write\<close> from its own thread.
  The \<open>Queue\<close> is the only synchronisation. The two methods are therefore taken statement
  by statement, each statement one step.

  \<open>flush_writes\<close>: \<open>Flush_test\<close> is the loop condition \<open>self.write_buffer.qsize()>0\<close>,
  \<open>Flush_get\<close> is \<open>buf = self.write_buffer.get()\<close> (which waits on an empty queue),
  \<open>Flush_send buf\<close> is the \<open>send_data\<close> call, \<open>Flush_transmit\<close> is \<open>self.transmit()\<close>,
  \<open>Flush_assign\<close> is \<open>self.write_buffer = None\<close>.

  \<open>write\<close>: \<open>Write_test\<close> is \<open>if self.write_buffer is not None\<close>, \<open>Write_put\<close> is
  \<open>self.write_buffer.put(buf)\<close> followed by \<open>return len(buf)\<close>, \<open>Write_super\<close> is
  \<open>return super().write(buf)\<close>.
\<close>

datatype flush_pc =
  Flush_test | Flush_get | Flush_send bytes | Flush_transmit | Flush_assign
| Flush_done | Flush_raised error

datatype write_pc = Write_test | Write_put | Write_super | Write_returned nat | Write_raised error

record 'b threads =
  conn :: "'b ClientWebSocketConnection"
  sent :: "effect list"
  loop_pc :: flush_pc
  caller_pc :: write_pc

definition flush_step :: "'b env \<Rightarrow> 'b threads \<Rightarrow> 'b threads" where
  "flush_step E s =
     (case loop_pc s of
        Flush_test \<Rightarrow>
          (case write_buffer (conn s) of
             None \<Rightarrow> s\<lparr>loop_pc := Flush_raised AttributeError\<rparr>
           | Some q \<Rightarrow> if length q > 0 then s\<lparr>loop_pc := Flush_get\<rparr>
                       else s\<lparr>loop_pc := Flush_transmit\<rparr>)
      | Flush_get \<Rightarrow>
          (case write_buffer (conn s) of
             None \<Rightarrow> s\<lparr>loop_pc := Flush_raised AttributeError\<rparr>
           | Some [] \<Rightarrow> s
           | Some (buf # q) \<Rightarrow>
               s\<lparr>conn := (conn s)\<lparr>write_buffer := Some q\<rparr>, loop_pc := Flush_send buf\<rparr>)
      | Flush_send buf \<Rightarrow>
          s\<lparr>sent := sent s @ [SendData (stream_id (conn s)) (memoryview_to_bytes E buf) False],
            loop_pc := Flush_test\<rparr>
      | Flush_transmit \<Rightarrow> s\<lparr>sent := sent s @ [Transmit], loop_pc := Flush_assign\<rparr>
      | Flush_assign \<Rightarrow> s\<lparr>conn := (conn s)\<lparr>write_buffer := None\<rparr>, loop_pc := Flush_done\<rparr>
      | Flush_done \<Rightarrow> s
      | Flush_raised e \<Rightarrow> s)"

definition write_step :: "'b env \<Rightarrow> bytes \<Rightarrow> 'b threads \<Rightarrow> 'b threads" where
  "write_step E buf s =
     (case caller_pc s of
        Write_test \<Rightarrow>
          (if write_buffer (conn s) \<noteq> None then s\<lparr>caller_pc := Write_put\<rparr>
           else s\<lparr>caller_pc := Write_super\<rparr>)
      | Write_put \<Rightarrow>
          (case write_buffer (conn s) of
             None \<Rightarrow> s\<lparr>caller_pc := Write_raised AttributeError\<rparr>
           | Some q \<Rightarrow>
               s\<lparr>conn := (conn s)\<lparr>write_buffer := Some (q @ [buf])\<rparr>,
                 caller_pc := Write_returned (length buf)\<rparr>)
      | Write_super \<Rightarrow>
          (let (evs, n, c) = XpraQuicConnection_write E buf (conn s)
           in s\<lparr>conn := c, sent := sent s @ evs, caller_pc := Write_returned n\<rparr>)
      | Write_returned n \<Rightarrow> s
      | Write_raised e \<Rightarrow> s)"

text \<open>
  A schedule says which thread takes the next step. \<open>overlap c\<close> is the moment
  \<open>http_event_received\<close> has set \<open>accepted\<close> on connection \<open>c\<close> and enters \<open>flush_writes\<close>,
  while the caller enters \<open>write\<close>.
\<close>

datatype thread = Loop | Caller

fun thread_step :: "'b env \<Rightarrow> bytes \<Rightarrow> thread \<Rightarrow> 'b threads \<Rightarrow> 'b threads" where
  "thread_step E buf Loop s = flush_step E s"
| "thread_step E buf Caller s = write_step E buf s"

definition run_schedule :: "'b env \<Rightarrow> bytes \<Rightarrow> thread list \<Rightarrow> 'b threads \<Rightarrow> 'b threads" where
  "run_schedule E buf schedule s = foldl (\<lambda>s t. thread_step E buf t s) s schedule"

definition overlap :: "'b ClientWebSocketConnection \<Rightarrow> 'b threads" where
  "overlap c =
     \<lparr>conn = c\<lparr>accepted := True\<rparr>, sent = [], loop_pc = Flush_test, caller_pc = Write_test\<rparr>"

section \<open>Authentication and TLS verification\<close>

text \<open>
  The closed sets of outcomes: the four verification results, and the external result codes
  that the unit tests import from \<open>xpra.exit_codes\<close>.
\<close>

datatype VerificationResult = Ok | PasswordRequired | AuthenticationFailed | NoAuthenticationConfigured

datatype result_code =
  EXIT_OK
| EXIT_CONNECTION_FAILED
| EXIT_AUTHENTICATION_FAILED
| EXIT_PASSWORD_REQUIRED
| EXIT_NO_AUTHENTICATION
| EXIT_SSL_CERTIFICATE_VERIFY_FAILURE

text \<open>
  The backends. \<open>Auth_file\<close> carries the stored secret, \<open>None\<close> when no readable credential
  file is configured; \<open>Auth_multifile\<close> carries the record found for the claimed username on
  the connecting display, \<open>None\<close> when there is none.
\<close>

datatype backend =
  Auth_none | Auth_allow | Auth_reject | Auth_fail
| Auth_file "str option"
| Auth_multifile "str option"

text \<open>
  Modelled from the spec: the verifier backends of the server (module \<open>xpra.server.auth\<close>),
  of which the sources at hand hold only the unit tests. \<open>verify\<close> is step 5 of the
  protocol: the peer's response is the digest of its secret with the salt (absent when no
  secret was supplied), compared with the digest of the stored secret.
\<close>

definition verify ::
  "(str \<Rightarrow> bytes \<Rightarrow> bytes) \<Rightarrow> bytes \<Rightarrow> backend \<Rightarrow> str option \<Rightarrow> VerificationResult" where
  "verify digest salt b secret =
     (let response = map_option (\<lambda>s. digest s salt) secret
      in case b of
           Auth_none \<Rightarrow> (case response of None \<Rightarrow> Ok | Some r \<Rightarrow> NoAuthenticationConfigured)
         | Auth_allow \<Rightarrow> (case response of None \<Rightarrow> PasswordRequired | Some r \<Rightarrow> Ok)
         | Auth_reject \<Rightarrow> PasswordRequired
         | Auth_fail \<Rightarrow> PasswordRequired
         | Auth_file stored \<Rightarrow>
             (case stored of
                None \<Rightarrow> PasswordRequired
              | Some st \<Rightarrow>
                  (case response of
                     None \<Rightarrow> PasswordRequired
                   | Some r \<Rightarrow> if r = digest st salt then Ok else AuthenticationFailed))
         | Auth_multifile stored \<Rightarrow>
             (case stored of
                None \<Rightarrow> PasswordRequired
              | Some st \<Rightarrow>
                  (case response of
                     None \<Rightarrow> PasswordRequired
                   | Some r \<Rightarrow> if r = digest st salt then Ok else AuthenticationFailed)))"

text \<open>
  Modelled from the spec: the mapping from a verification result to the external result
  code, and one authentication attempt (steps 2 to 6): \<open>fail\<close> tears the connection down
  before any challenge, every other backend verifies. The code that does this is not among
  the sources at hand.
\<close>

fun code_of :: "VerificationResult \<Rightarrow> result_code" where
  "code_of Ok = EXIT_OK"
| "code_of PasswordRequired = EXIT_PASSWORD_REQUIRED"
| "code_of AuthenticationFailed = EXIT_AUTHENTICATION_FAILED"
| "code_of NoAuthenticationConfigured = EXIT_NO_AUTHENTICATION"

definition authenticate ::
  "(str \<Rightarrow> bytes \<Rightarrow> bytes) \<Rightarrow> bytes \<Rightarrow> backend \<Rightarrow> str option \<Rightarrow> result_code" where
  "authenticate digest salt b secret =
     (if b = Auth_fail then EXIT_CONNECTION_FAILED else code_of (verify digest salt b secret))"

text \<open>
  \<open>_test_auth(auth, uri_prefix, exit_code, password)\<close> of the unit tests: the client gets a
  password file only \<open>if password:\<close>, so \<open>None\<close> and the empty string both supply no secret.
  The test passes when the client's exit code is the expected one.
\<close>

definition test_auth ::
  "(str \<Rightarrow> bytes \<Rightarrow> bytes) \<Rightarrow> bytes \<Rightarrow> backend \<Rightarrow> result_code \<Rightarrow> str option \<Rightarrow> bool" where
  "test_auth digest salt auth exit_code password =
     (let secret = (case password of None \<Rightarrow> None | Some p \<Rightarrow> if p = [] then None else Some p)
      in authenticate digest salt auth secret = exit_code)"

definition test_none :: "(str \<Rightarrow> bytes \<Rightarrow> bytes) \<Rightarrow> bytes \<Rightarrow> bool" where
  "test_none digest salt =
     (test_auth digest salt Auth_none EXIT_OK None
      \<and> test_auth digest salt Auth_none EXIT_NO_AUTHENTICATION (Some (str_of ''foo'')))"

text \<open>
  Modelled from the spec: TLS verification on the connecting side, done by the TLS library
  and by client code that the sources at hand do not hold. The verify-mode is \<open>none\<close>,
  \<open>peer\<close> or \<open>required\<close>; a presented chain is self-signed, otherwise untrusted, or trusted.
  Mode \<open>none\<close> skips verification; mode \<open>required\<close> makes a chain that fails verification
  fatal. The spec leaves mode \<open>peer\<close> on a failing chain open: \<open>peer_fatal\<close> decides it.
\<close>

datatype verify_mode = VERIFY_none | VERIFY_peer | VERIFY_required

datatype chain = SelfSigned | Untrusted | Trusted

definition chain_verifies :: "chain \<Rightarrow> bool" where
  "chain_verifies ch = (ch = Trusted)"

definition verification_fatal :: "bool \<Rightarrow> verify_mode \<Rightarrow> chain \<Rightarrow> bool" where
  "verification_fatal peer_fatal vm ch =
     (case vm of
        VERIFY_none \<Rightarrow> False
      | VERIFY_peer \<Rightarrow> peer_fatal \<and> \<not> chain_verifies ch
      | VERIFY_required \<Rightarrow> \<not> chain_verifies ch)"

text \<open>
  Modelled from the spec: a connection attempt over TLS. A fatal verification failure is
  reported as such; otherwise the attempt goes on to authentication.
\<close>

definition connect_result ::
  "bool \<Rightarrow> verify_mode \<Rightarrow> chain \<Rightarrow> (str \<Rightarrow> bytes \<Rightarrow> bytes) \<Rightarrow> bytes \<Rightarrow> backend \<Rightarrow> str option
     \<Rightarrow> result_code" where
  "connect_result peer_fatal vm ch digest salt b secret =
     (if verification_fatal peer_fatal vm ch then EXIT_SSL_CERTIFICATE_VERIFY_FAILURE
      else authenticate digest salt b secret)"

section \<open>An instance for worked examples\<close>

text \<open>
  One instance of the surroundings, for evaluating the model on concrete inputs: buffers
  are bytes already, a close packet is an unmasked close frame (code, then the reason),
  header dictionaries are encoded byte for byte, and the base class keeps one flag,
  \<open>True\<close> while the connection is active.
\<close>

definition example_binary :: "pyval \<Rightarrow> bytes" where
  "example_binary v = (case v of PStr s \<Rightarrow> map of_nat s | PInt i \<Rightarrow> [of_int (i div 256), of_int i])"

definition example_env :: "bool env" where
  "example_env =
     \<lparr>memoryview_to_bytes = (\<lambda>buf. buf),
      close_packet = (\<lambda>code reason.
         [0x88, of_nat (2 + length reason), of_int (code div 256), of_int code] @ map of_nat reason),
      binary_headers = map (\<lambda>(k, v). (map of_nat k, example_binary v)),
      USER_AGENT = str_of ''xpra'',
      Connection_init = (\<lambda>host port. True),
      Connection_close = (\<lambda>active. False)\<rparr>"

definition example_digest :: "str \<Rightarrow> bytes \<Rightarrow> bytes" where
  "example_digest secret salt = map of_nat secret @ salt"

text \<open>
  A connection on stream 0 that received one chunk and was then closed, and a client that
  opened stream 0.
\<close>

definition example_closed :: "bool XpraQuicConnection" where
  "example_closed =
     snd (XpraQuicConnection_close XpraQuicConnection_write example_env
       (snd (XpraQuicConnection_http_event_received (DataReceived 0 [1, 2, 3])
          (XpraQuicConnection_init example_env 0 (str_of ''localhost'') 10000))))"

definition example_client :: "bool WebSocketClient" where
  "example_client =
     snd (WebSocketClient_open example_env 0 (str_of ''localhost'') 10000 (str_of ''/'')
            WebSocketClient_init)"

definition example_connection :: "bool ClientWebSocketConnection" where
  "example_connection = ClientWebSocketConnection_init example_env 0 (str_of ''localhost'') 10000"

text \<open>
  The same connection after two writes, and after the response headers that accept it; the
  connection closed after one write, before any response; the client of the example after
  the accepting response headers.
\<close>

definition example_buffered :: "bool ClientWebSocketConnection" where
  "example_buffered =
     connection_after example_env 0 (str_of ''localhost'') 10000 [Write [1, 2], Write [3]]"

definition example_accepted :: "bool ClientWebSocketConnection" where
  "example_accepted =
     connection_after example_env 0 (str_of ''localhost'') 10000
       [Write [1, 2], Write [3],
        Event (HeadersReceived 0 [(bytes_of ''sec-websocket-protocol'', bytes_of ''xpra'')])]"



section \<open>Evaluation lemmas\<close>

lemmas connection_defs =
  XpraQuicConnection_init_def XpraQuicConnection_http_event_received_def
  XpraQuicConnection_send_headers_def XpraQuicConnection_write_def
  XpraQuicConnection_send_close_def XpraQuicConnection_close_def XpraQuicConnection_read_def

lemmas client_defs =
  ClientWebSocketConnection_init_def ClientWebSocketConnection_write_def
  ClientWebSocketConnection_close_def XpraQuicConnection.extend_def
  ClientWebSocketConnection.fields_def

lemma example_closed_eq:
  "example_closed =
     \<lparr>base = False, stream_id = 0, read_queue = [[1, 2, 3]], accepted = False, closed = True\<rparr>"
  by (simp add: example_closed_def example_env_def connection_defs)

lemma example_connection_eq:
  "example_connection =
     \<lparr>base = True, stream_id = 0, read_queue = [], accepted = False, closed = False,
      write_buffer = Some []\<rparr>"
  by (simp add: example_connection_def example_env_def connection_defs client_defs)

lemma example_client_websockets:
  "websockets example_client = [0 \<mapsto> example_connection]"
  by (simp add: example_client_def WebSocketClient_open_def WebSocketClient_init_def
      example_connection_def)

section \<open>Closing a connection\<close>

lemma closed_after_close:
  "closed (snd (XpraQuicConnection_close XpraQuicConnection_write E c))"
  "closed (snd (ClientWebSocketConnection_close E w))"
  by (simp_all add: connection_defs client_defs Let_def split: option.splits prod.splits)

lemma base_after_close:
  "base (snd (XpraQuicConnection_close XpraQuicConnection_write E c)) = Connection_close E (base c)"
  "base (snd (ClientWebSocketConnection_close E w)) = Connection_close E (base w)"
  by (simp_all add: connection_defs client_defs Let_def split: option.splits prod.splits)

lemma close_when_closed:
  "closed c \<Longrightarrow> XpraQuicConnection_close wr E c = ([], c\<lparr>base := Connection_close E (base c)\<rparr>)"
  by (simp add: XpraQuicConnection_close_def)

text \<open>
  Claim C7. Calling \<open>close()\<close> twice is idempotent. The first call leaves \<open>closed\<close> set, so
  the second call skips \<open>send_close\<close>: it makes no call on the HTTP/3 connection (no second
  close frame, no second status response, no \<open>transmit\<close>), and it cannot raise. What the
  second call still does is \<open>Connection.close(self)\<close> of the base class; where that is
  idempotent on the base state, the connection after two calls is the connection after one.
  This holds for the base class's \<open>write\<close> and for the overriding \<open>write\<close> of
  \<open>ClientWebSocketConnection\<close>.
\<close>

theorem close_twice:
  assumes "Connection_close E (Connection_close E (base c)) = Connection_close E (base c)"
      and "Connection_close E (Connection_close E (base w)) = Connection_close E (base w)"
  shows "XpraQuicConnection_close XpraQuicConnection_write E
           (snd (XpraQuicConnection_close XpraQuicConnection_write E c))
         = ([], snd (XpraQuicConnection_close XpraQuicConnection_write E c)) \<and>
         ClientWebSocketConnection_close E (snd (ClientWebSocketConnection_close E w))
         = ([], snd (ClientWebSocketConnection_close E w))"
proof -
  let ?c1 = "snd (XpraQuicConnection_close XpraQuicConnection_write E c)"
  let ?w1 = "snd (ClientWebSocketConnection_close E w)"
  have c1: "?c1\<lparr>base := Connection_close E (base ?c1)\<rparr> = ?c1"
    using assms(1) by (simp add: base_after_close)
  have w1: "?w1\<lparr>base := Connection_close E (base ?w1)\<rparr> = ?w1"
    using assms(2) by (simp add: base_after_close)
  have "XpraQuicConnection_close XpraQuicConnection_write E ?c1
          = ([], ?c1\<lparr>base := Connection_close E (base ?c1)\<rparr>)"
    by (rule close_when_closed) (rule closed_after_close)
  then have A: "XpraQuicConnection_close XpraQuicConnection_write E ?c1 = ([], ?c1)"
    by (simp only: c1)
  have "closed ?w1"
    by (rule closed_after_close)
  then have "ClientWebSocketConnection_close E ?w1
          = ([], ?w1\<lparr>base := Connection_close E (base ?w1)\<rparr>)"
    by (simp only: ClientWebSocketConnection_close_def close_when_closed)
  then have B: "ClientWebSocketConnection_close E ?w1 = ([], ?w1)"
    by (simp only: w1)
  from A B show ?thesis by (rule conjI)
qed

theorem close_twice_witness:
  "Connection_close example_env (Connection_close example_env
       (base (XpraQuicConnection_init example_env 0 (str_of ''localhost'') 10000)))
     = Connection_close example_env
         (base (XpraQuicConnection_init example_env 0 (str_of ''localhost'') 10000)) \<and>
   Connection_close example_env (Connection_close example_env (base example_connection))
     = Connection_close example_env (base example_connection) \<and>
   XpraQuicConnection_close XpraQuicConnection_write example_env
       (snd (XpraQuicConnection_close XpraQuicConnection_write example_env
               (XpraQuicConnection_init example_env 0 (str_of ''localhost'') 10000)))
     = ([], snd (XpraQuicConnection_close XpraQuicConnection_write example_env
                   (XpraQuicConnection_init example_env 0 (str_of ''localhost'') 10000))) \<and>
   ClientWebSocketConnection_close example_env
       (snd (ClientWebSocketConnection_close example_env example_connection))
     = ([], snd (ClientWebSocketConnection_close example_env example_connection))"
proof -
  let ?c = "XpraQuicConnection_init example_env 0 (str_of ''localhost'') 10000"
  have h1: "Connection_close example_env (Connection_close example_env (base ?c))
     = Connection_close example_env (base ?c)"
    by (simp add: example_env_def)
  have h2: "Connection_close example_env (Connection_close example_env (base example_connection))
     = Connection_close example_env (base example_connection)"
    by (simp add: example_env_def)
  from h1 h2 close_twice [OF h1 h2] show ?thesis by blast
qed

section \<open>Reading and writing\<close>

text \<open>
  Claim C10. \<open>read(n)\<close> ignores \<open>n\<close>: the result is the same for every two arguments, and
  with a chunk queued the call takes the whole oldest chunk, whatever its length, and leaves
  the rest of the queue.
\<close>

theorem read_ignores_max_bytes:
  "XpraQuicConnection_read n c = XpraQuicConnection_read n' c \<and>
   (read_queue c = chunk # q \<longrightarrow>
      XpraQuicConnection_read n c = (Returns chunk, c\<lparr>read_queue := q\<rparr>))"
  by (simp add: XpraQuicConnection_read_def)

theorem read_ignores_max_bytes_witness:
  "read_queue example_closed = [1, 2, 3] # [] \<and>
   XpraQuicConnection_read 0 example_closed = XpraQuicConnection_read (- 1) example_closed \<and>
   XpraQuicConnection_read 0 example_closed
     = (Returns [1, 2, 3], example_closed\<lparr>read_queue := []\<rparr>)"
proof -
  have h: "read_queue example_closed = [1, 2, 3] # []"
    by (simp add: example_closed_eq)
  from h read_ignores_max_bytes [where n = 0 and n' = "- 1" and c = example_closed
      and chunk = "[1, 2, 3]" and q = "[]"]
  show ?thesis by blast
qed

section \<open>The multiplexer\<close>

text \<open>
  Claim C8. The upgrade request that \<open>open\<close> sends carries exactly eight headers, in this
  order: \<open>:authority\<close> and \<open>:path\<close>, then \<open>:method=CONNECT\<close>, \<open>:scheme=https\<close>,
  \<open>:protocol=websocket\<close>, \<open>sec-websocket-version=13\<close>, \<open>sec-websocket-protocol=xpra\<close> and
  \<open>user-agent\<close>. The new connection is stored under its stream id.
\<close>

theorem open_sends_upgrade_headers:
  "WebSocketClient_open E sid host port path m =
     (sid,
      m\<lparr>websockets := (websockets m)(sid \<mapsto> ClientWebSocketConnection_init E sid host port),
        calls := calls m @
          [SendHeaders sid
             (binary_headers E
                [(str_of '':authority'', PStr host),
                 (str_of '':path'', PStr path),
                 (str_of '':method'', PStr (str_of ''CONNECT'')),
                 (str_of '':scheme'', PStr (str_of ''https'')),
                 (str_of '':protocol'', PStr (str_of ''websocket'')),
                 (str_of ''sec-websocket-version'', PInt 13),
                 (str_of ''sec-websocket-protocol'', PStr (str_of ''xpra'')),
                 (str_of ''user-agent'', PStr (USER_AGENT E))])
             False,
           Transmit]\<rparr>)"
  by (simp add: WebSocketClient_open_def WS_HEADERS_def str_of_def)

text \<open>
  Claim C6. An event whose stream id is not a key of \<open>_websockets\<close> makes the handler log
  one warning and return normally. Nothing else changes: the map and every connection in it
  are as before, and no call reaches the HTTP/3 connection.
\<close>

theorem unknown_stream_event_ignored:
  "event_stream_id event \<notin> dom (websockets m) \<Longrightarrow>
     WebSocketClient_http_event_received E event m =
       (m\<lparr>calls := calls m @
              [Warn (if is_headers_or_data event then UnexpectedStreamId (event_stream_id event)
                     else UnexpectedEventType event)]\<rparr>,
        Inr ())"
  by (auto simp add: WebSocketClient_http_event_received_def Let_def dom_def)

theorem unknown_stream_event_ignored_witness:
  "event_stream_id (DataReceived 4 [1, 2]) \<notin> dom (websockets example_client) \<and>
   WebSocketClient_http_event_received example_env (DataReceived 4 [1, 2]) example_client =
     (example_client\<lparr>calls := calls example_client @ [Warn (UnexpectedStreamId 4)]\<rparr>, Inr ())"
proof -
  have h: "event_stream_id (DataReceived 4 [1, 2]) \<notin> dom (websockets example_client)"
    by (simp add: example_client_websockets)
  from unknown_stream_event_ignored [OF h, where E = example_env] h show ?thesis by simp
qed

section \<open>Authentication and TLS verification\<close>

text \<open>
  Claim C3. Against the \<open>none\<close> backend, an attempt without a credential gives \<open>OK\<close> and an
  attempt with any credential gives \<open>NO_AUTHENTICATION\<close>, never \<open>OK\<close>; these are the two
  expectations of \<open>test_none\<close>.
\<close>

theorem none_backend:
  "authenticate digest salt Auth_none None = EXIT_OK \<and>
   authenticate digest salt Auth_none (Some secret) = EXIT_NO_AUTHENTICATION \<and>
   authenticate digest salt Auth_none (Some secret) \<noteq> EXIT_OK \<and>
   test_none digest salt"
  by (simp add: authenticate_def verify_def test_none_def test_auth_def str_of_def)

text \<open>
  Claim C9. Against a self-signed certificate, verify-mode \<open>required\<close> gives
  \<open>SSL_CERTIFICATE_VERIFY_FAILURE\<close> whatever the backend; verify-mode \<open>none\<close> gives \<open>OK\<close>
  whenever the backend accepts the attempt.
\<close>

theorem tls_verify_mode:
  "connect_result peer_fatal VERIFY_required SelfSigned digest salt b secret
     = EXIT_SSL_CERTIFICATE_VERIFY_FAILURE \<and>
   (authenticate digest salt b secret = EXIT_OK \<longrightarrow>
      connect_result peer_fatal VERIFY_none SelfSigned digest salt b secret = EXIT_OK)"
  by (simp add: connect_result_def verification_fatal_def chain_verifies_def)

theorem tls_verify_mode_witness:
  "authenticate example_digest [1, 2, 3] Auth_none None = EXIT_OK \<and>
   connect_result True VERIFY_required SelfSigned example_digest [1, 2, 3] Auth_none None
     = EXIT_SSL_CERTIFICATE_VERIFY_FAILURE \<and>
   connect_result True VERIFY_none SelfSigned example_digest [1, 2, 3] Auth_none None = EXIT_OK"
proof -
  have h: "authenticate example_digest [1, 2, 3] Auth_none None = EXIT_OK"
    by (simp add: authenticate_def verify_def)
  from h tls_verify_mode [where peer_fatal = True and digest = example_digest and salt = "[1, 2, 3]"
      and b = Auth_none and secret = None]
  show ?thesis by blast
qed

section \<open>The write buffer and the subprotocol check\<close>

lemma flush_loop_eq:
  "flush_loop E sid q = (map (\<lambda>buf. SendData sid (memoryview_to_bytes E buf) False) q, [])"
  by (induction q) simp_all

lemma flush_writes_Some:
  "write_buffer c = Some q \<Longrightarrow>
     flush_writes E c =
       (map (\<lambda>buf. SendData (stream_id c) (memoryview_to_bytes E buf) False) q @ [Transmit],
        c\<lparr>write_buffer := None\<rparr>, Inr ())"
  by (simp add: flush_writes_def flush_loop_eq)

lemma flush_writes_None:
  "write_buffer c = None \<Longrightarrow> flush_writes E c = ([], c, Inl AttributeError)"
  by (simp add: flush_writes_def)

lemma headers_loop_other:
  "header \<noteq> bytes_of ''sec-websocket-protocol'' \<Longrightarrow>
     headers_loop E ((header, val) # hs) c = headers_loop E hs c"
  by simp

lemma headers_loop_undecodable:
  "decode val = Inl e \<Longrightarrow>
     headers_loop E ((bytes_of ''sec-websocket-protocol'', val) # hs) c = ([], c, Inl e)"
  by simp

lemma headers_loop_unsupported:
  "decode val = Inr s \<Longrightarrow> str_of ''xpra'' \<notin> set (split 44 s) \<Longrightarrow>
     headers_loop E ((bytes_of ''sec-websocket-protocol'', val) # hs) c =
       (Warn (UnsupportedSubprotocols (split 44 s)) # fst (ClientWebSocketConnection_close E c),
        snd (ClientWebSocketConnection_close E c), Inr ())"
  by (simp add: split_beta)

lemma headers_loop_accept:
  "decode val = Inr s \<Longrightarrow> str_of ''xpra'' \<in> set (split 44 s) \<Longrightarrow> write_buffer c = Some q \<Longrightarrow>
     headers_loop E ((bytes_of ''sec-websocket-protocol'', val) # hs) c =
       (map (\<lambda>buf. SendData (stream_id c) (memoryview_to_bytes E buf) False) q @ Transmit #
          fst (headers_loop E hs (c\<lparr>accepted := True, write_buffer := None\<rparr>)),
        snd (headers_loop E hs (c\<lparr>accepted := True, write_buffer := None\<rparr>)))"
  by (simp add: flush_writes_Some split_beta Let_def)

lemma headers_loop_accept_again:
  "decode val = Inr s \<Longrightarrow> str_of ''xpra'' \<in> set (split 44 s) \<Longrightarrow> write_buffer c = None \<Longrightarrow>
     headers_loop E ((bytes_of ''sec-websocket-protocol'', val) # hs) c =
       ([], c\<lparr>accepted := True\<rparr>, Inl AttributeError)"
  by (simp add: flush_writes_None Let_def)

lemma headers_loop_skip:
  "\<forall>hv\<in>set pre. fst hv \<noteq> bytes_of ''sec-websocket-protocol'' \<Longrightarrow>
     headers_loop E (pre @ hs) c = headers_loop E hs c"
  by (induction pre) auto

lemma close_fields:
  "accepted (snd (ClientWebSocketConnection_close E c)) = accepted c"
  "write_buffer c = None \<Longrightarrow> write_buffer (snd (ClientWebSocketConnection_close E c)) = None"
  "stream_id (snd (ClientWebSocketConnection_close E c)) = stream_id c"
  by (simp_all add: connection_defs client_defs Let_def split: option.splits prod.splits)

lemma close_retired_effects:
  "write_buffer c = None \<Longrightarrow> SendData i b False \<notin> set (fst (ClientWebSocketConnection_close E c))"
  by (simp add: connection_defs client_defs Let_def split: option.splits prod.splits)

lemma close_inv:
  "buffer_inv c \<Longrightarrow> buffer_inv (snd (ClientWebSocketConnection_close E c))"
  by (auto simp add: buffer_inv_def connection_defs client_defs Let_def split: option.splits prod.splits)

lemma write_inv:
  "buffer_inv c \<Longrightarrow> buffer_inv (snd (snd (ClientWebSocketConnection_write E buf c)))"
  by (auto simp add: buffer_inv_def connection_defs client_defs Let_def split: option.splits)

lemma headers_loop_inv:
  "buffer_inv c \<Longrightarrow> buffer_inv (fst (snd (headers_loop E hs c)))"
proof (induction hs arbitrary: c)
  case Nil
  then show ?case by simp
next
  case (Cons hv hs)
  obtain header val where hv: "hv = (header, val)" by (cases hv)
  show ?case
  proof (cases "header = bytes_of ''sec-websocket-protocol''")
    case False
    with Cons hv show ?thesis by (simp add: headers_loop_other del: headers_loop.simps)
  next
    case True
    show ?thesis
    proof (cases "decode val")
      case (Inl e)
      with True hv Cons.prems show ?thesis by (simp add: headers_loop_undecodable del: headers_loop.simps)
    next
      case (Inr s)
      show ?thesis
      proof (cases "str_of ''xpra'' \<in> set (split 44 s)")
        case False
        with True hv Inr close_inv [OF Cons.prems, of E] show ?thesis
          by (simp add: headers_loop_unsupported del: headers_loop.simps)
      next
        case xpra: True
        show ?thesis
        proof (cases "write_buffer c")
          case None
          with Cons.prems have "buffer_inv (c\<lparr>accepted := True\<rparr>)"
            by (simp add: buffer_inv_def)
          with None True hv Inr xpra show ?thesis
            by (simp add: headers_loop_accept_again del: headers_loop.simps)
        next
          case (Some q)
          have "buffer_inv (c\<lparr>accepted := True, write_buffer := None\<rparr>)"
            by (simp add: buffer_inv_def)
          from Cons.IH [OF this] Some True hv Inr xpra show ?thesis
            by (simp add: headers_loop_accept del: headers_loop.simps)
        qed
      qed
    qed
  qed
qed

lemma state_after_inv:
  "buffer_inv c \<Longrightarrow> buffer_inv (state_after E call c)"
proof (cases call)
  case (Write buf)
  assume "buffer_inv c"
  with Write show ?thesis by (simp add: write_inv)
next
  case Close
  assume "buffer_inv c"
  with Close show ?thesis by (simp add: close_inv)
next
  case (Event event)
  assume inv: "buffer_inv c"
  show ?thesis
  proof (cases event)
    case (HeadersReceived sid hs)
    with Event headers_loop_inv [OF inv] show ?thesis
      by (simp add: ClientWebSocketConnection_http_event_received_def)
  next
    case (DataReceived sid data)
    with Event inv show ?thesis
      by (simp add: ClientWebSocketConnection_http_event_received_def
          XpraQuicConnection_http_event_received_def buffer_inv_def)
  next
    case (OtherEvent sid)
    with Event inv show ?thesis
      by (simp add: ClientWebSocketConnection_http_event_received_def
          XpraQuicConnection_http_event_received_def buffer_inv_def)
  qed
next
  case (Read n)
  assume "buffer_inv c"
  with Read show ?thesis
    by (simp add: XpraQuicConnection_read_def buffer_inv_def split: list.splits)
qed

lemma init_inv: "buffer_inv (ClientWebSocketConnection_init E sid host port)"
  by (simp add: buffer_inv_def client_defs connection_defs)

lemma foldl_inv:
  "buffer_inv c \<Longrightarrow> buffer_inv (foldl (\<lambda>c call. state_after E call c) c cs)"
  by (induction cs arbitrary: c) (simp_all add: state_after_inv)

lemma connection_after_inv: "buffer_inv (connection_after E sid host port cs)"
  by (simp add: connection_after_def foldl_inv init_inv)


lemma close_unaccepted_buffer:
  "\<not> accepted c \<Longrightarrow> write_buffer (snd (ClientWebSocketConnection_close E c)) = write_buffer c"
  by (simp add: connection_defs client_defs Let_def)

lemma headers_loop_accepted:
  "accepted c \<Longrightarrow> accepted (fst (snd (headers_loop E hs c)))"
proof (induction hs arbitrary: c)
  case Nil
  then show ?case by simp
next
  case (Cons hv hs)
  obtain header val where hv: "hv = (header, val)" by (cases hv)
  show ?case
  proof (cases "header = bytes_of ''sec-websocket-protocol''")
    case False
    with Cons hv show ?thesis by (simp add: headers_loop_other del: headers_loop.simps)
  next
    case True
    show ?thesis
    proof (cases "decode val")
      case (Inl e)
      with True hv Cons.prems show ?thesis
        by (simp add: headers_loop_undecodable del: headers_loop.simps)
    next
      case (Inr s)
      show ?thesis
      proof (cases "str_of ''xpra'' \<in> set (split 44 s)")
        case False
        with True hv Inr Cons.prems show ?thesis
          by (simp add: headers_loop_unsupported close_fields del: headers_loop.simps)
      next
        case xpra: True
        show ?thesis
        proof (cases "write_buffer c")
          case None
          with True hv Inr xpra show ?thesis
            by (simp add: headers_loop_accept_again del: headers_loop.simps)
        next
          case (Some q)
          have "accepted (c\<lparr>accepted := True, write_buffer := None\<rparr>)"
            by simp
          from Cons.IH [OF this] Some True hv Inr xpra show ?thesis
            by (simp add: headers_loop_accept del: headers_loop.simps)
        qed
      qed
    qed
  qed
qed

lemma headers_loop_retired:
  "write_buffer c = None \<Longrightarrow>
     write_buffer (fst (snd (headers_loop E hs c))) = None \<and>
     SendData i b False \<notin> set (fst (headers_loop E hs c))"
proof (induction hs arbitrary: c)
  case Nil
  then show ?case by simp
next
  case (Cons hv hs)
  obtain header val where hv: "hv = (header, val)" by (cases hv)
  show ?case
  proof (cases "header = bytes_of ''sec-websocket-protocol''")
    case False
    with Cons hv show ?thesis by (simp add: headers_loop_other del: headers_loop.simps)
  next
    case True
    show ?thesis
    proof (cases "decode val")
      case (Inl e)
      with True hv Cons.prems show ?thesis
        by (simp add: headers_loop_undecodable del: headers_loop.simps)
    next
      case (Inr s)
      show ?thesis
      proof (cases "str_of ''xpra'' \<in> set (split 44 s)")
        case False
        with True hv Inr Cons.prems show ?thesis
          by (simp add: headers_loop_unsupported close_fields close_retired_effects
              del: headers_loop.simps)
      next
        case xpra: True
        with True hv Inr Cons.prems show ?thesis
          by (simp add: headers_loop_accept_again del: headers_loop.simps)
      qed
    qed
  qed
qed

lemma headers_loop_unaccepted:
  "\<not> accepted (fst (snd (headers_loop E hs c))) \<Longrightarrow>
     write_buffer (fst (snd (headers_loop E hs c))) = write_buffer c"
proof (induction hs arbitrary: c)
  case Nil
  then show ?case by simp
next
  case (Cons hv hs)
  obtain header val where hv: "hv = (header, val)" by (cases hv)
  show ?case
  proof (cases "header = bytes_of ''sec-websocket-protocol''")
    case False
    with Cons hv show ?thesis by (simp add: headers_loop_other del: headers_loop.simps)
  next
    case True
    show ?thesis
    proof (cases "decode val")
      case (Inl e)
      with True hv show ?thesis
        by (simp add: headers_loop_undecodable del: headers_loop.simps)
    next
      case (Inr s)
      show ?thesis
      proof (cases "str_of ''xpra'' \<in> set (split 44 s)")
        case False
        with True hv Inr Cons.prems show ?thesis
          by (simp add: headers_loop_unsupported close_fields close_unaccepted_buffer
              del: headers_loop.simps)
      next
        case xpra: True
        show ?thesis
        proof (cases "write_buffer c")
          case None
          with True hv Inr xpra Cons.prems show ?thesis
            by (simp add: headers_loop_accept_again del: headers_loop.simps)
        next
          case (Some q)
          have "accepted (fst (snd (headers_loop E hs (c\<lparr>accepted := True, write_buffer := None\<rparr>))))"
            by (rule headers_loop_accepted) simp
          with Some True hv Inr xpra Cons.prems show ?thesis
            by (simp add: headers_loop_accept del: headers_loop.simps)
        qed
      qed
    qed
  qed
qed

lemma event_effects:
  "ClientWebSocketConnection_http_event_received E (HeadersReceived n hs) c = headers_loop E hs c"
  "fst (snd (ClientWebSocketConnection_http_event_received E (DataReceived n data) c))
     = (if closed c then c else c\<lparr>read_queue := read_queue c @ [data]\<rparr>)"
  "fst (snd (ClientWebSocketConnection_http_event_received E (OtherEvent n) c)) = c"
  "SendData i b e \<notin> set (fst (ClientWebSocketConnection_http_event_received E (DataReceived n data) c))"
  "SendData i b e \<notin> set (fst (ClientWebSocketConnection_http_event_received E (OtherEvent n) c))"
  by (simp_all add: ClientWebSocketConnection_http_event_received_def
      XpraQuicConnection_http_event_received_def)

lemma state_after_accepted:
  "accepted c \<Longrightarrow> accepted (state_after E call c)"
proof (cases call)
  case (Write buf)
  assume "accepted c"
  with Write show ?thesis
    by (simp add: ClientWebSocketConnection_write_def XpraQuicConnection_write_def
        split: option.splits)
next
  case Close
  assume "accepted c"
  with Close show ?thesis by (simp add: close_fields)
next
  case (Event event)
  assume acc: "accepted c"
  show ?thesis
  proof (cases event)
    case (HeadersReceived n hs)
    with Event headers_loop_accepted [OF acc] show ?thesis by (simp add: event_effects)
  next
    case (DataReceived n data)
    with Event acc show ?thesis by (simp add: event_effects)
  next
    case (OtherEvent n)
    with Event acc show ?thesis by (simp add: event_effects)
  qed
next
  case (Read n)
  assume "accepted c"
  with Read show ?thesis by (simp add: XpraQuicConnection_read_def split: list.splits)
qed

lemma state_after_retired:
  "write_buffer c = None \<Longrightarrow> write_buffer (state_after E call c) = None"
proof (cases call)
  case (Write buf)
  assume "write_buffer c = None"
  with Write show ?thesis
    by (simp add: ClientWebSocketConnection_write_def XpraQuicConnection_write_def)
next
  case Close
  assume "write_buffer c = None"
  with Close show ?thesis by (simp add: close_fields)
next
  case (Event event)
  assume ret: "write_buffer c = None"
  show ?thesis
  proof (cases event)
    case (HeadersReceived n hs)
    with Event headers_loop_retired [OF ret] show ?thesis by (simp add: event_effects)
  next
    case (DataReceived n data)
    with Event ret show ?thesis by (simp add: event_effects)
  next
    case (OtherEvent n)
    with Event ret show ?thesis by (simp add: event_effects)
  qed
next
  case (Read n)
  assume "write_buffer c = None"
  with Read show ?thesis by (simp add: XpraQuicConnection_read_def split: list.splits)
qed

lemma state_after_unaccepted:
  assumes "\<not> accepted (state_after E call c)"
  shows "write_buffer (state_after E call c)
           = (case call of Write buf \<Rightarrow> map_option (\<lambda>q. q @ [buf]) (write_buffer c)
              | _ \<Rightarrow> write_buffer c)"
proof (cases call)
  case (Write buf)
  with assms show ?thesis
    by (simp add: ClientWebSocketConnection_write_def XpraQuicConnection_write_def
        split: option.splits)
next
  case Close
  with assms show ?thesis by (simp add: close_fields close_unaccepted_buffer)
next
  case (Event event)
  show ?thesis
  proof (cases event)
    case (HeadersReceived n hs)
    with Event assms headers_loop_unaccepted [of E hs c] show ?thesis by (simp add: event_effects)
  next
    case (DataReceived n data)
    with Event show ?thesis by (simp add: event_effects)
  next
    case (OtherEvent n)
    with Event show ?thesis by (simp add: event_effects)
  qed
next
  case (Read n)
  then show ?thesis by (simp add: XpraQuicConnection_read_def split: list.splits)
qed

lemma written_snoc:
  "written (cs @ [call]) = (case call of Write buf \<Rightarrow> written cs @ [buf] | _ \<Rightarrow> written cs)"
  by (induction cs rule: written.induct) (simp_all split: call.splits)

lemma connection_after_snoc:
  "connection_after E sid host port (cs @ [call])
     = state_after E call (connection_after E sid host port cs)"
  by (simp add: connection_after_def)

lemma unaccepted_buffer:
  "\<not> accepted (connection_after E sid host port cs) \<Longrightarrow>
     write_buffer (connection_after E sid host port cs) = Some (written cs)"
proof (induction cs rule: rev_induct)
  case Nil
  show ?case by (simp add: connection_after_def client_defs connection_defs)
next
  case (snoc call cs)
  let ?c = "connection_after E sid host port cs"
  from snoc.prems have un: "\<not> accepted (state_after E call ?c)"
    by (simp add: connection_after_snoc)
  then have "\<not> accepted ?c"
    using state_after_accepted by blast
  then have "write_buffer ?c = Some (written cs)"
    by (rule snoc.IH)
  with state_after_unaccepted [OF un] show ?case
    by (simp add: connection_after_snoc written_snoc split: call.splits)
qed

lemma decode_xpra: "decode (bytes_of ''xpra'') = Inr (str_of ''xpra'')"
  by (simp add: bytes_of_def str_of_def cons_cp_def)

lemma decode_foo: "decode (bytes_of ''foo'') = Inr (str_of ''foo'')"
  by (simp add: bytes_of_def str_of_def cons_cp_def)

lemma split_xpra: "split 44 (str_of ''xpra'') = [str_of ''xpra'']"
  by (simp add: str_of_def)

lemma split_foo: "split 44 (str_of ''foo'') = [str_of ''foo'']"
  by (simp add: str_of_def)

lemma foo_not_xpra: "str_of ''xpra'' \<noteq> str_of ''foo''"
  by (simp add: str_of_def)

lemma status_not_protocol: "bytes_of '':status'' \<noteq> bytes_of ''sec-websocket-protocol''"
  by (simp add: bytes_of_def)

lemma example_buffered_eq:
  "example_buffered =
     \<lparr>base = True, stream_id = 0, read_queue = [], accepted = False, closed = False,
      write_buffer = Some [[1, 2], [3]]\<rparr>"
  by (simp add: example_buffered_def connection_after_def example_connection_def [symmetric]
      example_connection_eq ClientWebSocketConnection_write_def)

lemma example_accepted_eq:
  "example_accepted =
     \<lparr>base = True, stream_id = 0, read_queue = [], accepted = True, closed = False,
      write_buffer = None\<rparr>"
proof -
  have "example_accepted =
          state_after example_env
            (Event (HeadersReceived 0 [(bytes_of ''sec-websocket-protocol'', bytes_of ''xpra'')]))
            example_buffered"
    by (simp add: example_accepted_def example_buffered_def connection_after_def)
  then show ?thesis
    by (simp add: example_buffered_eq event_effects decode_xpra split_xpra
        headers_loop_accept [where s = "str_of ''xpra''" and q = "[[1, 2], [3]]"]
        del: headers_loop.simps(2))
qed

lemma example_close_eq:
  "ClientWebSocketConnection_close example_env example_connection =
     ([SendHeaders 0 (binary_headers example_env [(str_of '':status'', PInt 1000)]) True, Transmit],
      example_connection\<lparr>base := False, closed := True\<rparr>)"
  by (simp add: example_connection_eq connection_defs client_defs example_env_def)




lemma close_unaccepted_effects:
  "\<not> accepted c \<Longrightarrow> SendData i b e \<notin> set (fst (ClientWebSocketConnection_close E c))"
  by (simp add: connection_defs client_defs Let_def)

lemma headers_loop_unaccepted_sends:
  "\<not> accepted (fst (snd (headers_loop E hs c))) \<Longrightarrow>
     SendData i b e \<notin> set (fst (headers_loop E hs c))"
proof (induction hs arbitrary: c)
  case Nil
  then show ?case by simp
next
  case (Cons hv hs)
  obtain header val where hv: "hv = (header, val)" by (cases hv)
  show ?case
  proof (cases "header = bytes_of ''sec-websocket-protocol''")
    case False
    with Cons hv show ?thesis by (simp add: headers_loop_other del: headers_loop.simps)
  next
    case True
    show ?thesis
    proof (cases "decode val")
      case (Inl err)
      with True hv show ?thesis
        by (simp add: headers_loop_undecodable del: headers_loop.simps)
    next
      case (Inr s)
      show ?thesis
      proof (cases "str_of ''xpra'' \<in> set (split 44 s)")
        case False
        with True hv Inr Cons.prems show ?thesis
          by (simp add: headers_loop_unsupported close_fields close_unaccepted_effects
              del: headers_loop.simps)
      next
        case xpra: True
        show ?thesis
        proof (cases "write_buffer c")
          case None
          with True hv Inr xpra Cons.prems show ?thesis
            by (simp add: headers_loop_accept_again del: headers_loop.simps)
        next
          case (Some q)
          have "accepted (fst (snd (headers_loop E hs (c\<lparr>accepted := True, write_buffer := None\<rparr>))))"
            by (rule headers_loop_accepted) simp
          with Some True hv Inr xpra Cons.prems show ?thesis
            by (simp add: headers_loop_accept del: headers_loop.simps)
        qed
      qed
    qed
  qed
qed

lemma call_unaccepted_sends:
  assumes inv: "buffer_inv c" and un: "\<not> accepted (state_after E call c)"
  shows "SendData i b e \<notin> set (call_effects E call c)"
proof (cases call)
  case (Write buf)
  from un state_after_accepted [of c E call] have "\<not> accepted c" by blast
  with inv have "write_buffer c \<noteq> None" by (simp add: buffer_inv_def)
  with Write show ?thesis
    by (auto simp add: ClientWebSocketConnection_write_def)
next
  case Close
  from un state_after_accepted [of c E call] have "\<not> accepted c" by blast
  with Close show ?thesis by (simp add: close_unaccepted_effects)
next
  case (Event event)
  show ?thesis
  proof (cases event)
    case (HeadersReceived n hs)
    with Event un headers_loop_unaccepted_sends [of E hs c i b e] show ?thesis
      by (simp add: event_effects)
  next
    case (DataReceived n data)
    with Event show ?thesis by (simp add: event_effects)
  next
    case (OtherEvent n)
    with Event show ?thesis by (simp add: event_effects)
  qed
next
  case (Read n)
  then show ?thesis by simp
qed

lemma foldl_accepted:
  "accepted c \<Longrightarrow> accepted (foldl (\<lambda>c call. state_after E call c) c cs)"
  by (induction cs arbitrary: c) (simp_all add: state_after_accepted)

lemma trace_unaccepted:
  "buffer_inv c \<Longrightarrow> \<not> accepted (foldl (\<lambda>c call. state_after E call c) c cs) \<Longrightarrow>
     SendData i b e \<notin> set (trace E cs c)"
proof (induction cs arbitrary: c)
  case Nil
  show ?case by simp
next
  case (Cons call cs)
  from Cons.prems(2) foldl_accepted [of "state_after E call c" E cs]
  have un: "\<not> accepted (state_after E call c)" by auto
  from Cons.prems(1) have inv: "buffer_inv (state_after E call c)"
    by (rule state_after_inv)
  from call_unaccepted_sends [OF Cons.prems(1) un] Cons.IH [OF inv] Cons.prems(2)
  show ?case by simp
qed

lemma nothing_sent_before_acceptance:
  "\<not> accepted (connection_after E sid host port cs) \<Longrightarrow>
     SendData i b e \<notin> set (trace E cs (ClientWebSocketConnection_init E sid host port))"
  unfolding connection_after_def by (rule trace_unaccepted [OF init_inv])

text \<open>
  Calls that do not overlap. Take any sequence of calls on a newly constructed connection.
  If it leaves the connection not accepted, then no call of the sequence has sent any
  stream data; the buffer holds exactly the buffers handed to \<open>write\<close> so far, in the order
  of the calls; a further \<open>write\<close> sends nothing, appends its buffer and returns
  \<open>len(buf)\<close>; and response headers whose first \<open>sec-websocket-protocol\<close> header lists
  \<open>xpra\<close> send every buffered buffer once, oldest first, followed by one \<open>transmit\<close>, after
  which nothing the handler still does sends stream data that is not final, and the
  connection is accepted with the buffer gone.
  If the sequence leaves the connection accepted, then \<open>write\<close> goes straight to the stream,
  every further call leaves the connection accepted with the buffer gone, and no event
  makes the handler send stream data that is not final.
\<close>

theorem sequential_write_buffering:
  fixes c d :: "'b ClientWebSocketConnection"
  assumes c: "c = connection_after E sid host port cs" and un: "\<not> accepted c"
      and d: "d = connection_after E sid' host' port' ds" and acc: "accepted d"
      and pre: "\<forall>hv\<in>set pre. fst hv \<noteq> bytes_of ''sec-websocket-protocol''"
      and val: "decode val = Inr s" and xpra: "str_of ''xpra'' \<in> set (split 44 s)"
  shows "(\<forall>i b e. SendData i b e
                   \<notin> set (trace E cs (ClientWebSocketConnection_init E sid host port))) \<and>
         write_buffer c = Some (written cs) \<and>
         ClientWebSocketConnection_write E buf c
           = ([], length buf, c\<lparr>write_buffer := Some (written cs @ [buf])\<rparr>) \<and>
         (\<exists>evs c' r.
            ClientWebSocketConnection_http_event_received E
                (HeadersReceived n (pre @ (bytes_of ''sec-websocket-protocol'', val) # rest)) c
              = (map (\<lambda>buf. SendData (stream_id c) (memoryview_to_bytes E buf) False) (written cs)
                   @ Transmit # evs, c', r) \<and>
            (\<forall>i b. SendData i b False \<notin> set evs) \<and> accepted c' \<and> write_buffer c' = None) \<and>
         ClientWebSocketConnection_write E buf d
           = ([SendData (stream_id d) (memoryview_to_bytes E buf) (closed d), Transmit],
              length buf, d) \<and>
         accepted (state_after E call d) \<and> write_buffer (state_after E call d) = None \<and>
         (\<forall>i b. SendData i b False
                  \<notin> set (fst (ClientWebSocketConnection_http_event_received E event d)))"
proof -
  from c un have quiet: "\<forall>i b e. SendData i b e
                   \<notin> set (trace E cs (ClientWebSocketConnection_init E sid host port))"
    by (simp add: nothing_sent_before_acceptance)
  from c un have buf_c: "write_buffer c = Some (written cs)"
    by (simp add: unaccepted_buffer)
  then have wr_c: "ClientWebSocketConnection_write E buf c
           = ([], length buf, c\<lparr>write_buffer := Some (written cs @ [buf])\<rparr>)"
    by (simp add: ClientWebSocketConnection_write_def)
  let ?c1 = "c\<lparr>accepted := True, write_buffer := None\<rparr>"
  let ?rest = "headers_loop E rest ?c1"
  have ev: "ClientWebSocketConnection_http_event_received E
                (HeadersReceived n (pre @ (bytes_of ''sec-websocket-protocol'', val) # rest)) c
              = (map (\<lambda>buf. SendData (stream_id c) (memoryview_to_bytes E buf) False) (written cs)
                   @ Transmit # fst ?rest, fst (snd ?rest), snd (snd ?rest))"
    using pre val xpra buf_c
    by (simp add: event_effects headers_loop_skip headers_loop_accept del: headers_loop.simps)
  have r1: "\<forall>i b. SendData i b False \<notin> set (fst ?rest)"
    using headers_loop_retired [of ?c1 E rest] by simp
  have r2: "write_buffer (fst (snd ?rest)) = None"
    using headers_loop_retired [of ?c1 E rest] by simp
  have r3: "accepted (fst (snd ?rest))"
    by (rule headers_loop_accepted) simp
  from ev r1 r2 r3 have accept: "\<exists>evs c' r.
            ClientWebSocketConnection_http_event_received E
                (HeadersReceived n (pre @ (bytes_of ''sec-websocket-protocol'', val) # rest)) c
              = (map (\<lambda>buf. SendData (stream_id c) (memoryview_to_bytes E buf) False) (written cs)
                   @ Transmit # evs, c', r) \<and>
            (\<forall>i b. SendData i b False \<notin> set evs) \<and> accepted c' \<and> write_buffer c' = None"
    by blast
  have "buffer_inv d"
    unfolding d by (rule connection_after_inv)
  with acc have buf_d: "write_buffer d = None"
    by (simp add: buffer_inv_def)
  then have wr_d: "ClientWebSocketConnection_write E buf d
           = ([SendData (stream_id d) (memoryview_to_bytes E buf) (closed d), Transmit],
              length buf, d)"
    by (simp add: ClientWebSocketConnection_write_def XpraQuicConnection_write_def)
  have s1: "accepted (state_after E call d)"
    using acc by (rule state_after_accepted)
  have s2: "write_buffer (state_after E call d) = None"
    using buf_d by (rule state_after_retired)
  have s3: "\<forall>i b. SendData i b False
                  \<notin> set (fst (ClientWebSocketConnection_http_event_received E event d))"
  proof (cases event)
    case (HeadersReceived m hs)
    with headers_loop_retired [OF buf_d, of E hs] show ?thesis by (simp add: event_effects)
  next
    case (DataReceived m data)
    then show ?thesis by (simp add: event_effects)
  next
    case (OtherEvent m)
    then show ?thesis by (simp add: event_effects)
  qed
  from quiet buf_c wr_c accept wr_d s1 s2 s3 show ?thesis by blast
qed

theorem sequential_write_buffering_example:
  "example_buffered
     = connection_after example_env 0 (str_of ''localhost'') 10000 [Write [1, 2], Write [3]] \<and>
   \<not> accepted example_buffered \<and>
   example_accepted
     = connection_after example_env 0 (str_of ''localhost'') 10000
         [Write [1, 2], Write [3],
          Event (HeadersReceived 0 [(bytes_of ''sec-websocket-protocol'', bytes_of ''xpra'')])] \<and>
   accepted example_accepted \<and>
   bytes_of '':status'' \<noteq> bytes_of ''sec-websocket-protocol'' \<and>
   decode (bytes_of ''xpra'') = Inr (str_of ''xpra'') \<and>
   str_of ''xpra'' \<in> set (split 44 (str_of ''xpra'')) \<and>
   write_buffer example_buffered = Some [[1, 2], [3]] \<and>
   ClientWebSocketConnection_write example_env [9] example_buffered
     = ([], 1, example_buffered\<lparr>write_buffer := Some [[1, 2], [3], [9]]\<rparr>) \<and>
   (\<exists>evs c' r.
      ClientWebSocketConnection_http_event_received example_env
          (HeadersReceived 0
             [(bytes_of '':status'', bytes_of ''200''),
              (bytes_of ''sec-websocket-protocol'', bytes_of ''xpra'')])
          example_buffered
        = ([SendData 0 [1, 2] False, SendData 0 [3] False, Transmit] @ evs, c', r) \<and>
      (\<forall>i b. SendData i b False \<notin> set evs) \<and> accepted c' \<and> write_buffer c' = None) \<and>
   ClientWebSocketConnection_write example_env [9] example_accepted
     = ([SendData 0 [9] False, Transmit], 1, example_accepted) \<and>
   accepted (state_after example_env Close example_accepted) \<and>
   write_buffer (state_after example_env Close example_accepted) = None"
proof -
  have h1: "example_buffered
     = connection_after example_env 0 (str_of ''localhost'') 10000 [Write [1, 2], Write [3]]"
    by (rule example_buffered_def)
  have h2: "\<not> accepted example_buffered"
    by (simp add: example_buffered_eq)
  have h3: "example_accepted
     = connection_after example_env 0 (str_of ''localhost'') 10000
         [Write [1, 2], Write [3],
          Event (HeadersReceived 0 [(bytes_of ''sec-websocket-protocol'', bytes_of ''xpra'')])]"
    by (rule example_accepted_def)
  have h4: "accepted example_accepted"
    by (simp add: example_accepted_eq)
  have h5: "\<forall>hv\<in>set [(bytes_of '':status'', bytes_of ''200'')].
      fst hv \<noteq> bytes_of ''sec-websocket-protocol''"
    by (simp add: status_not_protocol)
  have h6: "decode (bytes_of ''xpra'') = Inr (str_of ''xpra'')"
    by (rule decode_xpra)
  have h7: "str_of ''xpra'' \<in> set (split 44 (str_of ''xpra''))"
    by (simp add: split_xpra)
  have e: "memoryview_to_bytes example_env = (\<lambda>buf. buf)"
    by (simp add: example_env_def)
  from sequential_write_buffering [OF h1 h2 h3 h4 h5 h6 h7, where buf = "[9]" and n = 0 and rest = "[]"
      and call = Close and event = "OtherEvent 0"]
  have "write_buffer example_buffered = Some [[1, 2], [3]] \<and>
   ClientWebSocketConnection_write example_env [9] example_buffered
     = ([], 1, example_buffered\<lparr>write_buffer := Some [[1, 2], [3], [9]]\<rparr>) \<and>
   (\<exists>evs c' r.
      ClientWebSocketConnection_http_event_received example_env
          (HeadersReceived 0
             [(bytes_of '':status'', bytes_of ''200''),
              (bytes_of ''sec-websocket-protocol'', bytes_of ''xpra'')])
          example_buffered
        = ([SendData 0 [1, 2] False, SendData 0 [3] False, Transmit] @ evs, c', r) \<and>
      (\<forall>i b. SendData i b False \<notin> set evs) \<and> accepted c' \<and> write_buffer c' = None) \<and>
   ClientWebSocketConnection_write example_env [9] example_accepted
     = ([SendData 0 [9] False, Transmit], 1, example_accepted) \<and>
   accepted (state_after example_env Close example_accepted) \<and>
   write_buffer (state_after example_env Close example_accepted) = None"
    by (simp add: e example_buffered_eq [THEN arg_cong, of stream_id]
        example_accepted_eq [THEN arg_cong, of stream_id]
        example_accepted_eq [THEN arg_cong, of closed])
  with h1 h2 h3 h4 h6 h7 status_not_protocol show ?thesis by blast
qed

text \<open>
  Claim C2, as amended. Take response headers whose first \<open>sec-websocket-protocol\<close> header
  has a value that decodes. If its comma-separated list does not contain \<open>xpra\<close>, the
  handler logs a warning, closes the connection as \<open>close()\<close> does, looks at no further
  header and returns normally: the connection is closed, its \<open>accepted\<close> flag is as before,
  and no error is raised or kept for the caller. If the list contains \<open>xpra\<close>, the connection
  is accepted.
\<close>

theorem subprotocol_check:
  assumes pre: "\<forall>hv\<in>set pre. fst hv \<noteq> bytes_of ''sec-websocket-protocol''"
      and val: "decode val = Inr s" and no: "str_of ''xpra'' \<notin> set (split 44 s)"
      and val': "decode val' = Inr s'" and yes: "str_of ''xpra'' \<in> set (split 44 s')"
  shows "ClientWebSocketConnection_http_event_received E
             (HeadersReceived n (pre @ (bytes_of ''sec-websocket-protocol'', val) # rest)) c
           = (Warn (UnsupportedSubprotocols (split 44 s)) # fst (ClientWebSocketConnection_close E c),
              snd (ClientWebSocketConnection_close E c), Inr ()) \<and>
         closed (snd (ClientWebSocketConnection_close E c)) \<and>
         accepted (snd (ClientWebSocketConnection_close E c)) = accepted c \<and>
         accepted (fst (snd (ClientWebSocketConnection_http_event_received E
             (HeadersReceived n (pre @ (bytes_of ''sec-websocket-protocol'', val') # rest)) c)))"
proof -
  have A: "ClientWebSocketConnection_http_event_received E
             (HeadersReceived n (pre @ (bytes_of ''sec-websocket-protocol'', val) # rest)) c
           = (Warn (UnsupportedSubprotocols (split 44 s)) # fst (ClientWebSocketConnection_close E c),
              snd (ClientWebSocketConnection_close E c), Inr ())"
    using pre val no
    by (simp add: event_effects headers_loop_skip headers_loop_unsupported del: headers_loop.simps)
  have B: "closed (snd (ClientWebSocketConnection_close E c))"
    by (rule closed_after_close)
  have C: "accepted (snd (ClientWebSocketConnection_close E c)) = accepted c"
    by (rule close_fields)
  have D: "accepted (fst (snd (headers_loop E ((bytes_of ''sec-websocket-protocol'', val') # rest) c)))"
  proof (cases "write_buffer c")
    case None
    with val' yes show ?thesis
      by (simp add: headers_loop_accept_again del: headers_loop.simps)
  next
    case (Some q)
    have "accepted (fst (snd (headers_loop E rest (c\<lparr>accepted := True, write_buffer := None\<rparr>))))"
      by (rule headers_loop_accepted) simp
    with Some val' yes show ?thesis
      by (simp add: headers_loop_accept del: headers_loop.simps)
  qed
  with pre have D': "accepted (fst (snd (ClientWebSocketConnection_http_event_received E
             (HeadersReceived n (pre @ (bytes_of ''sec-websocket-protocol'', val') # rest)) c)))"
    by (simp add: event_effects headers_loop_skip del: headers_loop.simps)
  from A B C D' show ?thesis by blast
qed

theorem subprotocol_check_witness:
  "bytes_of '':status'' \<noteq> bytes_of ''sec-websocket-protocol'' \<and>
   decode (bytes_of ''foo'') = Inr (str_of ''foo'') \<and>
   str_of ''xpra'' \<notin> set (split 44 (str_of ''foo'')) \<and>
   decode (bytes_of ''xpra'') = Inr (str_of ''xpra'') \<and>
   str_of ''xpra'' \<in> set (split 44 (str_of ''xpra'')) \<and>
   ClientWebSocketConnection_http_event_received example_env
       (HeadersReceived 0
          [(bytes_of '':status'', bytes_of ''200''),
           (bytes_of ''sec-websocket-protocol'', bytes_of ''foo'')])
       example_connection
     = (Warn (UnsupportedSubprotocols (split 44 (str_of ''foo'')))
          # fst (ClientWebSocketConnection_close example_env example_connection),
        snd (ClientWebSocketConnection_close example_env example_connection), Inr ()) \<and>
   closed (snd (ClientWebSocketConnection_close example_env example_connection)) \<and>
   accepted (fst (snd (ClientWebSocketConnection_http_event_received example_env
       (HeadersReceived 0
          [(bytes_of '':status'', bytes_of ''200''),
           (bytes_of ''sec-websocket-protocol'', bytes_of ''xpra'')])
       example_connection)))"
proof -
  have h1: "\<forall>hv\<in>set [(bytes_of '':status'', bytes_of ''200'')].
      fst hv \<noteq> bytes_of ''sec-websocket-protocol''"
    by (simp add: status_not_protocol)
  have h2: "decode (bytes_of ''foo'') = Inr (str_of ''foo'')"
    by (rule decode_foo)
  have h3: "str_of ''xpra'' \<notin> set (split 44 (str_of ''foo''))"
    by (simp add: split_foo foo_not_xpra)
  have h4: "decode (bytes_of ''xpra'') = Inr (str_of ''xpra'')"
    by (rule decode_xpra)
  have h5: "str_of ''xpra'' \<in> set (split 44 (str_of ''xpra''))"
    by (simp add: split_xpra)
  from subprotocol_check [OF h1 h2 h3 h4 h5, where E = example_env and n = 0 and rest = "[]"
      and c = example_connection]
  have "ClientWebSocketConnection_http_event_received example_env
       (HeadersReceived 0
          [(bytes_of '':status'', bytes_of ''200''),
           (bytes_of ''sec-websocket-protocol'', bytes_of ''foo'')])
       example_connection
     = (Warn (UnsupportedSubprotocols (split 44 (str_of ''foo'')))
          # fst (ClientWebSocketConnection_close example_env example_connection),
        snd (ClientWebSocketConnection_close example_env example_connection), Inr ()) \<and>
   closed (snd (ClientWebSocketConnection_close example_env example_connection)) \<and>
   accepted (fst (snd (ClientWebSocketConnection_http_event_received example_env
       (HeadersReceived 0
          [(bytes_of '':status'', bytes_of ''200''),
           (bytes_of ''sec-websocket-protocol'', bytes_of ''xpra'')])
       example_connection)))"
    by simp
  with h2 h3 h4 h5 status_not_protocol show ?thesis by blast
qed

text \<open>
  Claim C2 as stated fails: with the subprotocol list \<open>foo\<close>, the handler returns normally.
  The only traces are the warning and the status response; no error reaches anyone.
\<close>

theorem subprotocol_check_counterexample:
  "ClientWebSocketConnection_http_event_received example_env
       (HeadersReceived 0 [(bytes_of ''sec-websocket-protocol'', bytes_of ''foo'')])
       example_connection
     = ([Warn (UnsupportedSubprotocols [str_of ''foo'']),
         SendHeaders 0 (binary_headers example_env [(str_of '':status'', PInt 1000)]) True,
         Transmit],
        example_connection\<lparr>base := False, closed := True\<rparr>,
        Inr ())"
  by (simp add: event_effects headers_loop_unsupported [where s = "str_of ''foo''"]
      decode_foo split_foo foo_not_xpra example_close_eq del: headers_loop.simps(2))




section \<open>The overlap of write and flush_writes, step by step\<close>

text \<open>
  The steps agree with the methods: the loop thread running alone from the loop condition
  does what \<open>flush_writes\<close> does, and the caller running alone does what \<open>write\<close> does.
\<close>

lemma flush_alone:
  "write_buffer (conn s) = Some q \<Longrightarrow> loop_pc s = Flush_test \<Longrightarrow>
     run_schedule E buf (replicate (3 * length q + 3) Loop) s =
       s\<lparr>conn := (conn s)\<lparr>write_buffer := None\<rparr>,
         sent := sent s @ fst (flush_writes E (conn s)),
         loop_pc := Flush_done\<rparr>"
proof (induction q arbitrary: s)
  case Nil
  then show ?case
    by (simp add: run_schedule_def flush_step_def flush_writes_def numeral_3_eq_3)
next
  case (Cons b q)
  let ?s3 = "s\<lparr>conn := (conn s)\<lparr>write_buffer := Some q\<rparr>,
               sent := sent s @ [SendData (stream_id (conn s)) (memoryview_to_bytes E b) False],
               loop_pc := Flush_test\<rparr>"
  have three: "run_schedule E buf [Loop, Loop, Loop] s = ?s3"
    using Cons.prems by (simp add: run_schedule_def flush_step_def)
  have len: "replicate (3 * length (b # q) + 3) Loop
               = [Loop, Loop, Loop] @ replicate (3 * length q + 3) Loop"
    by (simp add: numeral_3_eq_3)
  have "run_schedule E buf (replicate (3 * length (b # q) + 3) Loop) s
          = run_schedule E buf (replicate (3 * length q + 3) Loop) ?s3"
    unfolding len using three by (simp add: run_schedule_def)
  also have "\<dots> = ?s3\<lparr>conn := (conn ?s3)\<lparr>write_buffer := None\<rparr>,
         sent := sent ?s3 @ fst (flush_writes E (conn ?s3)),
         loop_pc := Flush_done\<rparr>"
    by (rule Cons.IH) simp_all
  also have "\<dots> = s\<lparr>conn := (conn s)\<lparr>write_buffer := None\<rparr>,
         sent := sent s @ fst (flush_writes E (conn s)),
         loop_pc := Flush_done\<rparr>"
    using Cons.prems by (simp add: flush_writes_Some)
  finally show ?case .
qed

lemma write_alone:
  "caller_pc s = Write_test \<Longrightarrow>
     run_schedule E buf [Caller, Caller] s =
       s\<lparr>conn := snd (snd (ClientWebSocketConnection_write E buf (conn s))),
         sent := sent s @ fst (ClientWebSocketConnection_write E buf (conn s)),
         caller_pc := Write_returned (fst (snd (ClientWebSocketConnection_write E buf (conn s))))\<rparr>"
  by (cases "write_buffer (conn s)")
     (simp_all add: run_schedule_def write_step_def ClientWebSocketConnection_write_def
        XpraQuicConnection_write_def)

text \<open>
  Claim C1 fails on the code when a \<open>write\<close> overlaps \<open>flush_writes\<close>. The connection of
  the example holds two buffered writes when the accepting headers arrive. In the first
  schedule \<open>flush_writes\<close> sends both and finds the queue empty; the caller's \<open>write\<close> then
  finds \<open>write_buffer\<close> not \<open>None\<close>, puts its buffer and returns 1; \<open>flush_writes\<close> goes on
  to \<open>transmit\<close> and stores \<open>None\<close>. The caller's buffer was taken by \<open>write\<close> and is
  never sent: it is neither flushed nor written to the stream. In the second schedule
  \<open>write\<close> passes its test first, \<open>flush_writes\<close> runs to its end, and the \<open>put\<close> then
  raises \<open>AttributeError\<close>.
\<close>

theorem write_overlapping_flush_is_lost:
  "run_schedule example_env [9]
       [Loop, Loop, Loop, Loop, Loop, Loop, Loop, Caller, Caller, Loop, Loop]
       (overlap example_buffered)
     = \<lparr>conn = example_buffered\<lparr>accepted := True, write_buffer := None\<rparr>,
        sent = [SendData 0 [1, 2] False, SendData 0 [3] False, Transmit],
        loop_pc = Flush_done, caller_pc = Write_returned 1\<rparr> \<and>
   run_schedule example_env [9]
       [Caller, Loop, Loop, Loop, Loop, Loop, Loop, Loop, Loop, Loop, Caller]
       (overlap example_buffered)
     = \<lparr>conn = example_buffered\<lparr>accepted := True, write_buffer := None\<rparr>,
        sent = [SendData 0 [1, 2] False, SendData 0 [3] False, Transmit],
        loop_pc = Flush_done, caller_pc = Write_raised AttributeError\<rparr>"
  by (simp add: run_schedule_def overlap_def example_buffered_eq flush_step_def write_step_def
      example_env_def)

section \<open>Writing and reading on a closed connection\<close>





end
